theory Spec2Isabelle
  imports Main "HOL-Library.Word"
begin

section \<open>Data model\<close>

text \<open>
  The certificate endpoints of the transit backend
  (\<^verbatim>\<open>builtin/logical/transit/path_certificates.go\<close>): \<^verbatim>\<open>pathSignCsrWrite\<close> produces a
  CSR for a key version, \<^verbatim>\<open>pathSetCertificateWrite\<close> imports a certificate chain for one.
\<close>

text \<open>\<^verbatim>\<open>x509.PublicKeyAlgorithm\<close> of the Go standard library.\<close>

datatype PublicKeyAlgorithm = UnknownPublicKeyAlgorithm | RSA | DSA | ECDSA | Ed25519

text \<open>
  Modelled from the spec: \<^verbatim>\<open>keysutil.KeyType\<close> is declared in \<^verbatim>\<open>keysutil\<close>, not in
  this file. The seven signing types are the constants the switch of
  \<^verbatim>\<open>pathSetCertificateWrite\<close> names; the spec's "symmetric types that do not support
  signing" are one constructor carrying the type's name (\<^verbatim>\<open>aes256-gcm96\<close>, ...).
\<close>

datatype KeyType =
    KeyType_ECDSA_P256 | KeyType_ECDSA_P384 | KeyType_ECDSA_P521
  | KeyType_ED25519
  | KeyType_RSA2048 | KeyType_RSA3072 | KeyType_RSA4096
  | KeyType_Symmetric string

text \<open>
  Modelled from the spec: \<^verbatim>\<open>KeyType.SigningSupported\<close> is a method of \<^verbatim>\<open>keysutil\<close>;
  the spec has the RSA, ECDSA and ED25519 types sign and the symmetric types not.
\<close>

fun SigningSupported :: "KeyType \<Rightarrow> bool" where
  "SigningSupported (KeyType_Symmetric n) = False"
| "SigningSupported kt = True"

text \<open>\<^verbatim>\<open>pem.Block\<close>: the fields the code reads.\<close>

record Block =
  block_Type :: string
  block_Bytes :: string

text \<open>\<^verbatim>\<open>x509.Certificate\<close>: the fields the code reads. A public key is an opaque byte string.\<close>

record Certificate =
  BasicConstraintsValid :: bool
  IsCA :: bool
  PublicKeyAlgorithm :: PublicKeyAlgorithm
  PublicKey :: string

text \<open>
  \<^verbatim>\<open>x509.CertificateRequest\<close>; \<^verbatim>\<open>&x509.CertificateRequest{}\<close> is the value with every
  field zero.
\<close>

record CertificateRequest =
  csr_Raw :: string
  csr_Subject :: string

definition zero_CertificateRequest :: CertificateRequest where
  "zero_CertificateRequest = \<lparr>csr_Raw = [], csr_Subject = []\<rparr>"

text \<open>
  The functions of \<^verbatim>\<open>encoding/pem\<close> and \<^verbatim>\<open>crypto/x509\<close> the code calls are parameters.
  \<^verbatim>\<open>pem.Decode\<close> returns the next block (or nil) and the remainder of the input; the
  parsers return an error message or the parsed value.
\<close>

record stdlib =
  pem_Decode :: "string \<Rightarrow> Block option \<times> string"
  x509_ParseCertificateRequest :: "string \<Rightarrow> string + CertificateRequest"
  x509_ParseCertificate :: "string \<Rightarrow> string + Certificate"

text \<open>The errors of the two decoders, one constructor for each message of the source.\<close>

datatype codec_error =
    CouldNotDecodePemCsr
  | CsrParseError string
  | CouldNotDecodeCertificate
  | NoCertificatesProvided
  | FailedToParseCertificate string

section \<open>CSR and certificate-chain decoding\<close>

definition parseCsr :: "stdlib \<Rightarrow> string \<Rightarrow> codec_error + CertificateRequest" where
  "parseCsr L csrStr =
     (if csrStr = [] then Inr zero_CertificateRequest
      else case pem_Decode L csrStr of
             (None, _) \<Rightarrow> Inl CouldNotDecodePemCsr
           | (Some block, _) \<Rightarrow>
               (case x509_ParseCertificateRequest L (block_Bytes block) of
                  Inl err \<Rightarrow> Inl (CsrParseError err)
                | Inr csr \<Rightarrow> Inr csr))"

text \<open>
  The first loop of \<^verbatim>\<open>parseCertificateChain\<close>: \<^verbatim>\<open>for len(rest) != 0\<close>. Nothing in the
  code bounds it, so it is a partial function: \<open>None\<close> is a loop that never ends.
\<close>

partial_function (option) decodeBlocks ::
  "stdlib \<Rightarrow> string \<Rightarrow> Block list \<Rightarrow> (codec_error + Block list) option" where
  "decodeBlocks L rest pemCertBlocks =
     (if rest \<noteq> [] then
        (case pem_Decode L rest of
           (None, _) \<Rightarrow> Some (Inl CouldNotDecodeCertificate)
         | (Some pemCertBlock, rest') \<Rightarrow> decodeBlocks L rest' (pemCertBlocks @ [pemCertBlock]))
      else Some (Inr pemCertBlocks))"

text \<open>The second loop: \<^verbatim>\<open>for _, certBlock := range pemCertBlocks\<close>.\<close>

fun parseBlocks ::
  "stdlib \<Rightarrow> Block list \<Rightarrow> Certificate list \<Rightarrow> codec_error + Certificate list" where
  "parseBlocks L [] certificates = Inr certificates"
| "parseBlocks L (certBlock # bs) certificates =
     (case x509_ParseCertificate L (block_Bytes certBlock) of
        Inl err \<Rightarrow> Inl (FailedToParseCertificate err)
      | Inr cert \<Rightarrow> parseBlocks L bs (certificates @ [cert]))"

definition parseCertificateChain ::
  "stdlib \<Rightarrow> string \<Rightarrow> (codec_error + Certificate list) option" where
  "parseCertificateChain L certChainStr =
     (case decodeBlocks L certChainStr [] of
        None \<Rightarrow> None
      | Some (Inl err) \<Rightarrow> Some (Inl err)
      | Some (Inr pemCertBlocks) \<Rightarrow>
          if length pemCertBlocks = 0 then Some (Inl NoCertificatesProvided)
          else Some (parseBlocks L pemCertBlocks []))"

section \<open>Chain validation\<close>

text \<open>\<^verbatim>\<open>leafCertsCount\<close> is a \<^verbatim>\<open>uint8\<close>: the addition wraps at 256.\<close>

definition isLeaf :: "Certificate \<Rightarrow> bool" where
  "isLeaf cert = (BasicConstraintsValid cert \<and> \<not> IsCA cert)"

fun countLeafCerts :: "Certificate list \<Rightarrow> 8 word \<Rightarrow> 8 word" where
  "countLeafCerts [] leafCertsCount = leafCertsCount"
| "countLeafCerts (cert # certChain) leafCertsCount =
     countLeafCerts certChain (if isLeaf cert then leafCertsCount + 1 else leafCertsCount)"

definition hasSingleLeafCertificate :: "Certificate list \<Rightarrow> bool" where
  "hasSingleLeafCertificate certChain = (countLeafCerts certChain 0 = 1)"

text \<open>The \<^verbatim>\<open>switch p.Type\<close> of \<^verbatim>\<open>pathSetCertificateWrite\<close> that sets \<^verbatim>\<open>keyTypeMatches\<close>.\<close>

fun keyTypeMatches :: "KeyType \<Rightarrow> PublicKeyAlgorithm \<Rightarrow> bool" where
  "keyTypeMatches KeyType_ECDSA_P256 a = (a = ECDSA)"
| "keyTypeMatches KeyType_ECDSA_P384 a = (a = ECDSA)"
| "keyTypeMatches KeyType_ECDSA_P521 a = (a = ECDSA)"
| "keyTypeMatches KeyType_ED25519 a = (a = Ed25519)"
| "keyTypeMatches KeyType_RSA2048 a = (a = RSA)"
| "keyTypeMatches KeyType_RSA3072 a = (a = RSA)"
| "keyTypeMatches KeyType_RSA4096 a = (a = RSA)"
| "keyTypeMatches _ a = False"

section \<open>The key store and the request handlers\<close>

text \<open>\<^verbatim>\<open>keysutil.Policy\<close>: the fields the handlers read.\<close>

record Policy =
  Name :: string
  Type :: KeyType
  LatestVersion :: int

text \<open>
  What a handler does to its surroundings: the storage of the request (\<^verbatim>\<open>req.Storage\<close>),
  and the calls made on the policy's lock and on the persistence operation, in order.
\<close>

datatype call = Call_Lock bool | Call_Unlock | Call_PersistCertificateChain int

record 's world =
  storage :: 's
  calls :: "call list"

definition do_call :: "call \<Rightarrow> 's world \<Rightarrow> 's world" where
  "do_call c w = w\<lparr>calls := calls w @ [c]\<rparr>"

text \<open>
  Modelled from the spec: the operations of the backend and of \<^verbatim>\<open>keysutil.Policy\<close> that the
  handlers call are declared in \<^verbatim>\<open>keysutil\<close>, not in this file. They are parameters, with
  the results the call sites read: a value and an error (\<open>None\<close> is \<^verbatim>\<open>nil\<close>).
  \<^verbatim>\<open>GetPolicy\<close> is the spec's "lookup key by name": it reads the storage and returns the
  policy, \<^verbatim>\<open>nil\<close> when there is none. \<^verbatim>\<open>PersistCertificateChain\<close> is the spec's "persist
  a certificate chain against (keyName, version)": it is handed the storage, may change it
  and may fail. \<^verbatim>\<open>CreateCsr\<close> and \<^verbatim>\<open>ValidateLeafCertKeyMatch\<close> are not handed the storage.
\<close>

record 's backend =
  GetPolicy :: "'s \<Rightarrow> string \<Rightarrow> Policy option \<times> string option"
  CachingDisabled :: bool
  CreateCsr :: "Policy \<Rightarrow> int \<Rightarrow> CertificateRequest \<Rightarrow> string \<times> string option"
  ValidateLeafCertKeyMatch ::
    "Policy \<Rightarrow> int \<Rightarrow> PublicKeyAlgorithm \<Rightarrow> string \<Rightarrow> bool \<times> string option"
  PersistCertificateChain ::
    "Policy \<Rightarrow> int \<Rightarrow> Certificate list \<Rightarrow> 's \<Rightarrow> string option \<times> 's"

text \<open>\<^verbatim>\<open>framework.FieldData\<close>: the fields of the two paths; \<^verbatim>\<open>version\<close> is optional.\<close>

record FieldData =
  d_name :: string
  d_version :: "int option"
  d_csr :: string
  d_certificate_chain :: string

text \<open>
  The failures of the handlers, named as the spec names them. The first six are error
  responses with \<^verbatim>\<open>logical.ErrInvalidRequest\<close>; \<open>ErrStore\<close> is
  an error of the store returned as it is, \<open>ErrInternal\<close> and \<open>ErrPersistenceFailed\<close> are the
  wrapped errors (\<^verbatim>\<open>could not validate key match ...\<close>, \<^verbatim>\<open>failed to persist certificate
  chain\<close>); \<open>PanicIndexOutOfRange\<close> is the run-time panic of \<^verbatim>\<open>certChain[0]\<close> on an empty
  slice.
\<close>

datatype error =
    ErrKeyNotFound string
  | ErrSigningUnsupported KeyType
  | ErrMalformedInput codec_error
  | ErrInvalidChain
  | ErrKeyTypeMismatch PublicKeyAlgorithm KeyType
  | ErrKeyMismatch
  | ErrStore string
  | ErrInternal string
  | ErrPersistenceFailed string
  | PanicIndexOutOfRange

text \<open>The data of a successful response of the sign path.\<close>

record Response =
  resp_name :: string
  resp_type :: KeyType
  resp_csr :: string

type_synonym result = "error + Response option"

text \<open>\<^verbatim>\<open>pathSignCsrWrite\<close> from the deferred \<^verbatim>\<open>p.Unlock()\<close> on.\<close>

definition signCsr_locked :: "'s backend \<Rightarrow> stdlib \<Rightarrow> FieldData \<Rightarrow> Policy \<Rightarrow> result" where
  "signCsr_locked B L d p =
     (if \<not> SigningSupported (Type p) then Inl (ErrSigningUnsupported (Type p))
      else case parseCsr L (d_csr d) of
             Inl err \<Rightarrow> Inl (ErrMalformedInput err)
           | Inr csrTemplate \<Rightarrow>
               (let signingKeyVersion =
                      (case d_version d of Some version \<Rightarrow> version | None \<Rightarrow> LatestVersion p)
                in case CreateCsr B p signingKeyVersion csrTemplate of
                     (_, Some err) \<Rightarrow> Inl (ErrStore err)
                   | (pemCsr, None) \<Rightarrow>
                       Inr (Some \<lparr>resp_name = Name p, resp_type = Type p, resp_csr = pemCsr\<rparr>)))"

definition pathSignCsrWrite ::
  "'s backend \<Rightarrow> stdlib \<Rightarrow> FieldData \<Rightarrow> 's world \<Rightarrow> result \<times> 's world" where
  "pathSignCsrWrite B L d w =
     (case GetPolicy B (storage w) (d_name d) of
        (_, Some err) \<Rightarrow> (Inl (ErrStore err), w)
      | (None, None) \<Rightarrow> (Inl (ErrKeyNotFound (d_name d)), w)
      | (Some p, None) \<Rightarrow>
          (let w1 = (if \<not> CachingDisabled B then do_call (Call_Lock False) w else w)
           in (signCsr_locked B L d p, do_call Call_Unlock w1)))"

text \<open>
  \<^verbatim>\<open>pathSetCertificateWrite\<close> from the chain check on. The result of
  \<^verbatim>\<open>PersistCertificateChain\<close> is not assigned: the \<^verbatim>\<open>err\<close> tested after the call is the one
  \<^verbatim>\<open>ValidateLeafCertKeyMatch\<close> returned.
\<close>

definition setCertificate_checked ::
  "'s backend \<Rightarrow> FieldData \<Rightarrow> Policy \<Rightarrow> Certificate list \<Rightarrow> 's world \<Rightarrow> result \<times> 's world" where
  "setCertificate_checked B d p certChain w =
     (if \<not> hasSingleLeafCertificate certChain then (Inl ErrInvalidChain, w)
      else
        let keyVersion = (case d_version d of Some version \<Rightarrow> version | None \<Rightarrow> LatestVersion p)
        in case certChain of
             [] \<Rightarrow> (Inl PanicIndexOutOfRange, w)
           | cert0 # _ \<Rightarrow>
               (let leafCertPublicKeyAlgorithm = PublicKeyAlgorithm cert0
                in if \<not> keyTypeMatches (Type p) leafCertPublicKeyAlgorithm
                   then (Inl (ErrKeyTypeMismatch leafCertPublicKeyAlgorithm (Type p)), w)
                   else
                     case ValidateLeafCertKeyMatch B p keyVersion leafCertPublicKeyAlgorithm
                            (PublicKey cert0) of
                       (valid, err) \<Rightarrow>
                         (case err of
                            Some e \<Rightarrow> (Inl (ErrInternal e), w)
                          | None \<Rightarrow>
                              if \<not> valid then (Inl ErrKeyMismatch, w)
                              else
                                (let (_, st) = PersistCertificateChain B p keyVersion certChain
                                                 (storage w);
                                     w' = do_call (Call_PersistCertificateChain keyVersion)
                                            (w\<lparr>storage := st\<rparr>)
                                 in case err of
                                      Some e \<Rightarrow> (Inl (ErrPersistenceFailed e), w')
                                    | None \<Rightarrow> (Inr None, w')))))"

text \<open>\<^verbatim>\<open>pathSetCertificateWrite\<close> from the deferred \<^verbatim>\<open>p.Unlock()\<close> on.\<close>

definition setCertificate_locked ::
  "'s backend \<Rightarrow> stdlib \<Rightarrow> FieldData \<Rightarrow> Policy \<Rightarrow> 's world \<Rightarrow> (result \<times> 's world) option" where
  "setCertificate_locked B L d p w =
     (if \<not> SigningSupported (Type p) then Some (Inl (ErrSigningUnsupported (Type p)), w)
      else case parseCertificateChain L (d_certificate_chain d) of
             None \<Rightarrow> None
           | Some (Inl err) \<Rightarrow> Some (Inl (ErrMalformedInput err), w)
           | Some (Inr certChain) \<Rightarrow> Some (setCertificate_checked B d p certChain w))"

definition pathSetCertificateWrite ::
  "'s backend \<Rightarrow> stdlib \<Rightarrow> FieldData \<Rightarrow> 's world \<Rightarrow> (result \<times> 's world) option" where
  "pathSetCertificateWrite B L d w =
     (case GetPolicy B (storage w) (d_name d) of
        (_, Some err) \<Rightarrow> Some (Inl (ErrStore err), w)
      | (None, None) \<Rightarrow> Some (Inl (ErrKeyNotFound (d_name d)), w)
      | (Some p, None) \<Rightarrow>
          (let w1 = (if \<not> CachingDisabled B then do_call (Call_Lock True) w else w)
           in case setCertificate_locked B L d p w1 of
                None \<Rightarrow> None
              | Some (r, w2) \<Rightarrow> Some (r, do_call Call_Unlock w2)))"

section \<open>The behaviour the specification describes\<close>

text \<open>
  \<open>decodes_to L s bs r\<close>: stripping PEM blocks from the front of \<open>s\<close>, one after the
  other while the remainder is not empty, yields the blocks \<open>bs\<close> in this order and leaves
  the remainder \<open>r\<close>.
\<close>

fun decodes_to :: "stdlib \<Rightarrow> string \<Rightarrow> Block list \<Rightarrow> string \<Rightarrow> bool" where
  "decodes_to L s [] r = (r = s)"
| "decodes_to L s (b # bs) r =
     (s \<noteq> [] \<and>
      (case pem_Decode L s of
         (Some b', s') \<Rightarrow> b' = b \<and> decodes_to L s' bs r
       | (None, _) \<Rightarrow> False))"

text \<open>
  The specification's compatibility table, as a lookup table from the key type to the
  public-key algorithm it requires; a type that is not in the table matches nothing.
\<close>

definition compatibility_table :: "(KeyType \<times> PublicKeyAlgorithm) list" where
  "compatibility_table =
     [(KeyType_ECDSA_P256, ECDSA), (KeyType_ECDSA_P384, ECDSA), (KeyType_ECDSA_P521, ECDSA),
      (KeyType_ED25519, Ed25519),
      (KeyType_RSA2048, RSA), (KeyType_RSA3072, RSA), (KeyType_RSA4096, RSA)]"

definition AlgorithmMatchesKeyType :: "PublicKeyAlgorithm \<Rightarrow> KeyType \<Rightarrow> bool" where
  "AlgorithmMatchesKeyType a kt = (map_of compatibility_table kt = Some a)"

text \<open>
  The specification's condition on a non-empty CSR input: it decodes as exactly one PEM
  block (nothing is left after it), the block is of CSR type, and its contents parse as a
  certificate request.
\<close>

definition one_csr_block :: "stdlib \<Rightarrow> string \<Rightarrow> bool" where
  "one_csr_block L csrStr =
     (case pem_Decode L csrStr of
        (Some block, rest) \<Rightarrow>
          rest = [] \<and> block_Type block = ''CERTIFICATE REQUEST'' \<and>
          \<not> isl (x509_ParseCertificateRequest L (block_Bytes block))
      | (None, _) \<Rightarrow> False)"

section \<open>An instance of the parameters\<close>

text \<open>
  A small decoder, parser and key store to run the handlers on concrete requests. A block
  is written \<^verbatim>\<open>TYPE:BODY;\<close>. The body of a certificate is a letter for its basic
  constraints (\<^verbatim>\<open>L\<close> a leaf, \<^verbatim>\<open>C\<close> a CA, \<^verbatim>\<open>N\<close> no valid basic constraints), a letter
  for its algorithm (\<^verbatim>\<open>R\<close>, \<^verbatim>\<open>E\<close>, \<^verbatim>\<open>D\<close>) and its public key; the body of a
  certificate request is \<^verbatim>\<open>Q\<close> and its subject. Like \<^verbatim>\<open>pem.Decode\<close>, the decoder
  returns no block and the whole input when it finds none.
\<close>

fun split_at :: "char \<Rightarrow> string \<Rightarrow> (string \<times> string) option" where
  "split_at c [] = None"
| "split_at c (x # xs) =
     (if x = c then Some ([], xs)
      else case split_at c xs of None \<Rightarrow> None | Some (a, b) \<Rightarrow> Some (x # a, b))"

definition example_Decode :: "string \<Rightarrow> Block option \<times> string" where
  "example_Decode s =
     (case split_at CHR '';'' s of
        None \<Rightarrow> (None, s)
      | Some (blk, rest) \<Rightarrow>
          (case split_at CHR '':'' blk of
             None \<Rightarrow> (None, s)
           | Some (ty, body) \<Rightarrow> (Some \<lparr>block_Type = ty, block_Bytes = body\<rparr>, rest)))"

definition example_constraints :: "char \<Rightarrow> (bool \<times> bool) option" where
  "example_constraints k =
     (if k = CHR ''L'' then Some (True, False)
      else if k = CHR ''C'' then Some (True, True)
      else if k = CHR ''N'' then Some (False, False)
      else None)"

definition example_algorithm :: "char \<Rightarrow> PublicKeyAlgorithm option" where
  "example_algorithm a =
     (if a = CHR ''R'' then Some RSA
      else if a = CHR ''E'' then Some ECDSA
      else if a = CHR ''D'' then Some Ed25519
      else None)"

definition example_ParseCertificate :: "string \<Rightarrow> string + Certificate" where
  "example_ParseCertificate der =
     (case der of
        k # a # pk \<Rightarrow>
          (case (example_constraints k, example_algorithm a) of
             (Some (bcv, ca), Some alg) \<Rightarrow>
               Inr \<lparr>BasicConstraintsValid = bcv, IsCA = ca, PublicKeyAlgorithm = alg,
                    PublicKey = pk\<rparr>
           | _ \<Rightarrow> Inl ''x509: malformed certificate'')
      | _ \<Rightarrow> Inl ''x509: malformed certificate'')"

definition example_ParseCertificateRequest :: "string \<Rightarrow> string + CertificateRequest" where
  "example_ParseCertificateRequest der =
     (case der of
        q # subject \<Rightarrow>
          (if q = CHR ''Q'' then Inr \<lparr>csr_Raw = der, csr_Subject = subject\<rparr>
           else Inl ''asn1: structure error'')
      | [] \<Rightarrow> Inl ''asn1: syntax error'')"

definition example_stdlib :: stdlib where
  "example_stdlib =
     \<lparr>pem_Decode = example_Decode,
      x509_ParseCertificateRequest = example_ParseCertificateRequest,
      x509_ParseCertificate = example_ParseCertificate\<rparr>"

text \<open>
  The store holds three keys; the public key of key \<^verbatim>\<open>n\<close>, version 1, is \<^verbatim>\<open>pub-n\<close>.
  The storage is the list of the chains persisted, the latest first.
\<close>

type_synonym example_storage = "((string \<times> int) \<times> Certificate list) list"

definition example_GetPolicy :: "example_storage \<Rightarrow> string \<Rightarrow> Policy option \<times> string option" where
  "example_GetPolicy st n =
     (if n = ''rsa-key'' then
        (Some \<lparr>Name = n, Type = KeyType_RSA2048, LatestVersion = 1\<rparr>, None)
      else if n = ''ec-key'' then
        (Some \<lparr>Name = n, Type = KeyType_ECDSA_P256, LatestVersion = 1\<rparr>, None)
      else if n = ''aes-key'' then
        (Some \<lparr>Name = n, Type = KeyType_Symmetric ''aes256-gcm96'', LatestVersion = 1\<rparr>, None)
      else (None, None))"

definition example_ValidateLeafCertKeyMatch ::
  "Policy \<Rightarrow> int \<Rightarrow> PublicKeyAlgorithm \<Rightarrow> string \<Rightarrow> bool \<times> string option" where
  "example_ValidateLeafCertKeyMatch p v a pk =
     (if v = 1 then (pk = ''pub-'' @ Name p, None) else (False, Some ''version not found''))"

definition example_backend :: "example_storage backend" where
  "example_backend =
     \<lparr>GetPolicy = example_GetPolicy,
      CachingDisabled = False,
      CreateCsr = (\<lambda>p v t. (''CERTIFICATE REQUEST:Q'' @ csr_Subject t @ '';'', None)),
      ValidateLeafCertKeyMatch = example_ValidateLeafCertKeyMatch,
      PersistCertificateChain = (\<lambda>p v chain st. (None, ((Name p, v), chain) # st))\<rparr>"

text \<open>The same store when its storage refuses every write.\<close>

definition readonly_backend :: "example_storage backend" where
  "readonly_backend =
     example_backend\<lparr>PersistCertificateChain :=
       (\<lambda>p v chain st. (Some ''cannot write to readonly storage'', st))\<rparr>"

definition example_world :: "example_storage world" where
  "example_world = \<lparr>storage = [], calls = []\<rparr>"

text \<open>The versions \<^verbatim>\<open>PersistCertificateChain\<close> was called with, in order.\<close>

fun persist_calls :: "call list \<Rightarrow> int list" where
  "persist_calls [] = []"
| "persist_calls (Call_PersistCertificateChain v # cs) = v # persist_calls cs"
| "persist_calls (c # cs) = persist_calls cs"

text \<open>Values of the instance that the examples below use.\<close>

abbreviation rsa_policy :: Policy where
  "rsa_policy \<equiv> \<lparr>Name = ''rsa-key'', Type = KeyType_RSA2048, LatestVersion = 1\<rparr>"

abbreviation aes_policy :: Policy where
  "aes_policy \<equiv>
     \<lparr>Name = ''aes-key'', Type = KeyType_Symmetric ''aes256-gcm96'', LatestVersion = 1\<rparr>"

abbreviation rsa_leaf :: Certificate where
  "rsa_leaf \<equiv> \<lparr>BasicConstraintsValid = True, IsCA = False, PublicKeyAlgorithm = RSA,
     PublicKey = ''pub-rsa-key''\<rparr>"

abbreviation other_leaf :: Certificate where
  "other_leaf \<equiv> \<lparr>BasicConstraintsValid = True, IsCA = False, PublicKeyAlgorithm = RSA,
     PublicKey = ''pub-other''\<rparr>"

abbreviation ec_ca :: Certificate where
  "ec_ca \<equiv> \<lparr>BasicConstraintsValid = True, IsCA = True, PublicKeyAlgorithm = ECDSA,
     PublicKey = ''ca-key''\<rparr>"

abbreviation rsa_ca :: Certificate where
  "rsa_ca \<equiv> \<lparr>BasicConstraintsValid = True, IsCA = True, PublicKeyAlgorithm = RSA,
     PublicKey = ''pub-rsa-key''\<rparr>"

abbreviation leaf_block :: Block where
  "leaf_block \<equiv> \<lparr>block_Type = ''CERTIFICATE'', block_Bytes = ''LRpub-rsa-key''\<rparr>"

abbreviation import_request :: "string \<Rightarrow> string \<Rightarrow> FieldData" where
  "import_request n chain \<equiv>
     \<lparr>d_name = n, d_version = None, d_csr = [], d_certificate_chain = chain\<rparr>"

section \<open>Properties of the decoders\<close>

lemma decodeBlocks_decodes:
  "decodes_to L s bs [] \<Longrightarrow> decodeBlocks L s acc = Some (Inr (acc @ bs))"
proof (induction bs arbitrary: s acc)
  case Nil
  then show ?case by (simp add: decodeBlocks.simps)
next
  case (Cons b bs)
  from Cons.prems obtain s' where ne: "s \<noteq> []" and d: "pem_Decode L s = (Some b, s')"
    and rest: "decodes_to L s' bs []"
    by (auto split: prod.splits option.splits)
  have "decodeBlocks L s acc = decodeBlocks L s' (acc @ [b])"
    using ne d by (subst decodeBlocks.simps) simp
  also have "\<dots> = Some (Inr ((acc @ [b]) @ bs))"
    using Cons.IH [OF rest] .
  finally show ?case by simp
qed

lemma decodeBlocks_fails:
  "decodes_to L s bs r \<Longrightarrow> r \<noteq> [] \<Longrightarrow> fst (pem_Decode L r) = None \<Longrightarrow>
   decodeBlocks L s acc = Some (Inl CouldNotDecodeCertificate)"
proof (induction bs arbitrary: s acc)
  case Nil
  then show ?case
    by (subst decodeBlocks.simps) (auto split: prod.splits option.splits)
next
  case (Cons b bs)
  from Cons.prems(1) obtain s' where ne: "s \<noteq> []" and d: "pem_Decode L s = (Some b, s')"
    and rest: "decodes_to L s' bs r"
    by (auto split: prod.splits option.splits)
  have "decodeBlocks L s acc = decodeBlocks L s' (acc @ [b])"
    using ne d by (subst decodeBlocks.simps) simp
  then show ?case using Cons.IH [OF rest Cons.prems(2,3)] by simp
qed

lemma decodeBlocks_run:
  assumes run: "decodeBlocks L s acc = Some res"
  shows "(\<exists>bs. decodes_to L s bs [] \<and> res = Inr (acc @ bs)) \<or>
   (\<exists>bs r. decodes_to L s bs r \<and> r \<noteq> [] \<and> fst (pem_Decode L r) = None \<and>
      res = Inl CouldNotDecodeCertificate)"
proof -
  let ?P = "\<lambda>L s acc res.
    (\<exists>bs. decodes_to L s bs [] \<and> res = Inr (acc @ bs)) \<or>
    (\<exists>bs r. decodes_to L s bs r \<and> r \<noteq> [] \<and> fst (pem_Decode L r) = None \<and>
       res = Inl CouldNotDecodeCertificate)"
  have "?P L s acc res"
  proof (rule decodeBlocks.raw_induct [where P = ?P, OF _ run])
    fix f L s acc res
    assume IH: "\<And>L s acc res. f L s acc = Some res \<Longrightarrow> ?P L s acc res"
    assume body: "(if s \<noteq> [] then
        (case pem_Decode L s of
           (None, x) \<Rightarrow> Some (Inl CouldNotDecodeCertificate)
         | (Some pemCertBlock, x) \<Rightarrow> f L x (acc @ [pemCertBlock]))
      else Some (Inr acc)) = Some res"
    show "?P L s acc res"
    proof (cases "s = []")
      case True
      with body have "res = Inr acc" by simp
      with True have "decodes_to L s [] [] \<and> res = Inr (acc @ [])" by simp
      then show ?thesis by blast
    next
      case ne: False
      obtain ob s' where d: "pem_Decode L s = (ob, s')" by (cases "pem_Decode L s")
      show ?thesis
      proof (cases ob)
        case None
        with body ne d have "res = Inl CouldNotDecodeCertificate" by simp
        with ne d None have "decodes_to L s [] s \<and> s \<noteq> [] \<and> fst (pem_Decode L s) = None \<and>
          res = Inl CouldNotDecodeCertificate" by simp
        then show ?thesis by blast
      next
        case (Some b)
        with body ne d have step: "f L s' (acc @ [b]) = Some res" by simp
        from IH [OF step] show ?thesis
        proof (elim disjE exE conjE)
          fix bs assume "decodes_to L s' bs []" "res = Inr ((acc @ [b]) @ bs)"
          with ne d Some have "decodes_to L s (b # bs) [] \<and> res = Inr (acc @ b # bs)" by simp
          then show ?thesis by blast
        next
          fix bs r assume "decodes_to L s' bs r" "r \<noteq> []" "fst (pem_Decode L r) = None"
            "res = Inl CouldNotDecodeCertificate"
          with ne d Some have "decodes_to L s (b # bs) r \<and> r \<noteq> [] \<and>
            fst (pem_Decode L r) = None \<and> res = Inl CouldNotDecodeCertificate" by simp
          then show ?thesis by blast
        qed
      qed
    qed
  qed
  then show ?thesis .
qed

lemma decodeBlocks_total:
  assumes shrink: "\<forall>s b r. pem_Decode L s = (Some b, r) \<longrightarrow> length r < length s"
  shows "\<exists>res. decodeBlocks L s acc = Some res"
proof (induction s arbitrary: acc rule: length_induct)
  case (1 s)
  show ?case
  proof (cases "s = []")
    case True
    then show ?thesis by (subst decodeBlocks.simps) simp
  next
    case ne: False
    obtain ob s' where d: "pem_Decode L s = (ob, s')" by (cases "pem_Decode L s")
    show ?thesis
    proof (cases ob)
      case None
      with ne d show ?thesis by (subst decodeBlocks.simps) simp
    next
      case (Some b)
      with d shrink have "length s' < length s" by blast
      with 1 obtain res where "decodeBlocks L s' (acc @ [b]) = Some res" by blast
      with ne d Some show ?thesis by (subst decodeBlocks.simps) simp
    qed
  qed
qed

lemma decodes_to_unique:
  "decodes_to L s bs [] \<Longrightarrow> decodes_to L s bs' [] \<Longrightarrow> bs = bs'"
proof (induction bs arbitrary: s bs')
  case Nil
  then show ?case by (cases bs') auto
next
  case (Cons b bs)
  then show ?case
    by (cases bs') (auto split: prod.splits option.splits)
qed

lemma parseBlocks_Inr:
  "parseBlocks L bs acc = Inr out \<longleftrightarrow>
   (\<exists>cs. out = acc @ cs \<and> map (\<lambda>b. x509_ParseCertificate L (block_Bytes b)) bs = map Inr cs)"
proof (induction bs arbitrary: acc)
  case Nil
  then show ?case by auto
next
  case (Cons b bs)
  show ?case
  proof (cases "x509_ParseCertificate L (block_Bytes b)")
    case (Inl e)
    then show ?thesis by auto
  next
    case (Inr c)
    have "parseBlocks L (b # bs) acc = Inr out \<longleftrightarrow> parseBlocks L bs (acc @ [c]) = Inr out"
      using Inr by simp
    also have "\<dots> \<longleftrightarrow> (\<exists>cs. out = (acc @ [c]) @ cs \<and>
        map (\<lambda>b. x509_ParseCertificate L (block_Bytes b)) bs = map Inr cs)"
      by (rule Cons.IH)
    also have "\<dots> \<longleftrightarrow> (\<exists>cs. out = acc @ cs \<and>
        map (\<lambda>b. x509_ParseCertificate L (block_Bytes b)) (b # bs) = map Inr cs)"
    proof
      assume "\<exists>cs. out = (acc @ [c]) @ cs \<and>
        map (\<lambda>b. x509_ParseCertificate L (block_Bytes b)) bs = map Inr cs"
      then obtain cs where "out = acc @ (c # cs)"
        "map (\<lambda>b. x509_ParseCertificate L (block_Bytes b)) (b # bs) = map Inr (c # cs)"
        using Inr by auto
      then show "\<exists>cs. out = acc @ cs \<and>
        map (\<lambda>b. x509_ParseCertificate L (block_Bytes b)) (b # bs) = map Inr cs" by blast
    next
      assume "\<exists>cs. out = acc @ cs \<and>
        map (\<lambda>b. x509_ParseCertificate L (block_Bytes b)) (b # bs) = map Inr cs"
      then obtain cs where o: "out = acc @ cs" and
        m: "map (\<lambda>b. x509_ParseCertificate L (block_Bytes b)) (b # bs) = map Inr cs" by blast
      from m Inr obtain cs' where "cs = c # cs'"
        "map (\<lambda>b. x509_ParseCertificate L (block_Bytes b)) bs = map Inr cs'"
        by (cases cs) auto
      with o show "\<exists>cs. out = (acc @ [c]) @ cs \<and>
        map (\<lambda>b. x509_ParseCertificate L (block_Bytes b)) bs = map Inr cs" by auto
    qed
    finally show ?thesis .
  qed
qed

lemma parseBlocks_Inl:
  "parseBlocks L bs acc = Inl e \<Longrightarrow>
   \<exists>b m. b \<in> set bs \<and> x509_ParseCertificate L (block_Bytes b) = Inl m \<and>
     e = FailedToParseCertificate m"
proof (induction bs arbitrary: acc)
  case Nil
  then show ?case by simp
next
  case (Cons b bs)
  then show ?case
    by (cases "x509_ParseCertificate L (block_Bytes b)") fastforce+
qed

text \<open>What \<^verbatim>\<open>parseCertificateChain\<close> returns, in terms of the blocks of its input.\<close>

lemma parseCertificateChain_cases:
  "parseCertificateChain L s = Some res \<Longrightarrow>
   (\<exists>bs r. decodes_to L s bs r \<and> r \<noteq> [] \<and> fst (pem_Decode L r) = None \<and>
      res = Inl CouldNotDecodeCertificate) \<or>
   (decodes_to L s [] [] \<and> res = Inl NoCertificatesProvided) \<or>
   (\<exists>bs. decodes_to L s bs [] \<and> bs \<noteq> [] \<and> res = parseBlocks L bs [])"
proof -
  assume a: "parseCertificateChain L s = Some res"
  then obtain dres where d: "decodeBlocks L s [] = Some dres"
    by (auto simp: parseCertificateChain_def split: option.splits)
  from decodeBlocks_run [OF d] show ?thesis
  proof (elim disjE exE conjE)
    fix bs assume bs: "decodes_to L s bs []" "dres = Inr ([] @ bs)"
    show ?thesis
    proof (cases "bs = []")
      case True
      with a d bs have "decodes_to L s [] [] \<and> res = Inl NoCertificatesProvided"
        by (simp add: parseCertificateChain_def)
      then show ?thesis by blast
    next
      case False
      with a d bs have "decodes_to L s bs [] \<and> bs \<noteq> [] \<and> res = parseBlocks L bs []"
        by (simp add: parseCertificateChain_def)
      then show ?thesis by blast
    qed
  next
    fix bs r assume "decodes_to L s bs r" "r \<noteq> []" "fst (pem_Decode L r) = None"
      "dres = Inl CouldNotDecodeCertificate"
    with a d have "decodes_to L s bs r \<and> r \<noteq> [] \<and> fst (pem_Decode L r) = None \<and>
      res = Inl CouldNotDecodeCertificate"
      by (simp add: parseCertificateChain_def)
    then show ?thesis by blast
  qed
qed

lemma parseCertificateChain_success:
  "parseCertificateChain L s = Some (Inr certs) \<longleftrightarrow>
   (\<exists>bs. decodes_to L s bs [] \<and> bs \<noteq> [] \<and>
      map (\<lambda>b. x509_ParseCertificate L (block_Bytes b)) bs = map Inr certs)"
proof
  assume "parseCertificateChain L s = Some (Inr certs)"
  from parseCertificateChain_cases [OF this]
  obtain bs where "decodes_to L s bs []" "bs \<noteq> []" "parseBlocks L bs [] = Inr certs"
    by auto
  then show "\<exists>bs. decodes_to L s bs [] \<and> bs \<noteq> [] \<and>
      map (\<lambda>b. x509_ParseCertificate L (block_Bytes b)) bs = map Inr certs"
    by (auto simp: parseBlocks_Inr)
next
  assume "\<exists>bs. decodes_to L s bs [] \<and> bs \<noteq> [] \<and>
      map (\<lambda>b. x509_ParseCertificate L (block_Bytes b)) bs = map Inr certs"
  then obtain bs where bs: "decodes_to L s bs []" "bs \<noteq> []"
    "map (\<lambda>b. x509_ParseCertificate L (block_Bytes b)) bs = map Inr certs" by blast
  from bs(3) have "parseBlocks L bs [] = Inr certs" by (simp add: parseBlocks_Inr)
  with decodeBlocks_decodes [OF bs(1), of "[]"] bs(2)
  show "parseCertificateChain L s = Some (Inr certs)"
    by (simp add: parseCertificateChain_def)
qed

lemma parseCertificateChain_failure:
  "(\<exists>e. parseCertificateChain L s = Some (Inl e)) \<longleftrightarrow>
   (\<exists>bs r. decodes_to L s bs r \<and> r \<noteq> [] \<and> fst (pem_Decode L r) = None) \<or>
   (\<exists>bs b. decodes_to L s bs [] \<and> b \<in> set bs \<and>
      isl (x509_ParseCertificate L (block_Bytes b))) \<or>
   decodes_to L s [] []"
proof
  assume "\<exists>e. parseCertificateChain L s = Some (Inl e)"
  then obtain e where e: "parseCertificateChain L s = Some (Inl e)" ..
  from parseCertificateChain_cases [OF e]
  show "(\<exists>bs r. decodes_to L s bs r \<and> r \<noteq> [] \<and> fst (pem_Decode L r) = None) \<or>
   (\<exists>bs b. decodes_to L s bs [] \<and> b \<in> set bs \<and>
      isl (x509_ParseCertificate L (block_Bytes b))) \<or>
   decodes_to L s [] []"
  proof (elim disjE exE conjE)
    fix bs assume bs: "decodes_to L s bs []" "Inl e = parseBlocks L bs []"
    from parseBlocks_Inl [OF bs(2) [symmetric]]
    obtain b m where "b \<in> set bs" "x509_ParseCertificate L (block_Bytes b) = Inl m" by blast
    with bs(1) have "decodes_to L s bs [] \<and> b \<in> set bs \<and>
      isl (x509_ParseCertificate L (block_Bytes b))" by simp
    then show ?thesis by blast
  qed blast+
next
  assume "(\<exists>bs r. decodes_to L s bs r \<and> r \<noteq> [] \<and> fst (pem_Decode L r) = None) \<or>
   (\<exists>bs b. decodes_to L s bs [] \<and> b \<in> set bs \<and>
      isl (x509_ParseCertificate L (block_Bytes b))) \<or>
   decodes_to L s [] []"
  then show "\<exists>e. parseCertificateChain L s = Some (Inl e)"
  proof (elim disjE exE conjE)
    fix bs r assume "decodes_to L s bs r" "r \<noteq> []" "fst (pem_Decode L r) = None"
    from decodeBlocks_fails [OF this] show ?thesis
      by (simp add: parseCertificateChain_def)
  next
    fix bs b assume bs: "decodes_to L s bs []" "b \<in> set bs"
      "isl (x509_ParseCertificate L (block_Bytes b))"
    have "\<exists>e. parseBlocks L bs [] = Inl e"
    proof (cases "parseBlocks L bs []")
      case (Inr cs)
      then have "map (\<lambda>b. x509_ParseCertificate L (block_Bytes b)) bs = map Inr cs"
        by (simp add: parseBlocks_Inr)
      then have "\<forall>b \<in> set bs. \<not> isl (x509_ParseCertificate L (block_Bytes b))"
        by (metis (no_types, lifting) imageE list.set_map sum.disc(2) image_eqI)
      with bs show ?thesis by blast
    qed blast
    with decodeBlocks_decodes [OF bs(1), of "[]"] bs(2) show ?thesis
      by (cases bs) (auto simp: parseCertificateChain_def)
  next
    assume "decodes_to L s [] []"
    from decodeBlocks_decodes [OF this, of "[]"] show ?thesis
      by (simp add: parseCertificateChain_def)
  qed
qed

lemma parseCertificateChain_total:
  assumes "\<forall>s b r. pem_Decode L s = (Some b, r) \<longrightarrow> length r < length s"
  shows "\<exists>res. parseCertificateChain L s = Some res"
proof -
  from decodeBlocks_total [OF assms] obtain dres where "decodeBlocks L s [] = Some dres"
    by blast
  then show ?thesis
    by (cases dres) (auto simp: parseCertificateChain_def)
qed

section \<open>Evaluating the model\<close>

lemma decodeBlocks_Nil: "decodeBlocks L [] acc = Some (Inr acc)"
  by (subst decodeBlocks.simps) simp

lemma decodeBlocks_Cons:
  "decodeBlocks L (x # xs) acc =
     (case pem_Decode L (x # xs) of
        (None, _) \<Rightarrow> Some (Inl CouldNotDecodeCertificate)
      | (Some b, rest') \<Rightarrow> decodeBlocks L rest' (acc @ [b]))"
  by (subst decodeBlocks.simps) simp

lemmas example_defs = example_stdlib_def example_Decode_def
  example_ParseCertificate_def example_constraints_def example_algorithm_def
  example_ParseCertificateRequest_def

lemmas backend_defs = example_backend_def readonly_backend_def example_GetPolicy_def
  example_ValidateLeafCertKeyMatch_def example_world_def

lemmas eval_chain = parseCertificateChain_def decodeBlocks_Nil decodeBlocks_Cons example_defs

lemmas eval_import = pathSetCertificateWrite_def setCertificate_locked_def
  setCertificate_checked_def hasSingleLeafCertificate_def isLeaf_def do_call_def
  backend_defs eval_chain

lemma persist_calls_append: "persist_calls (xs @ ys) = persist_calls xs @ persist_calls ys"
  by (induction xs rule: persist_calls.induct) simp_all

lemma split_at_shorter: "split_at c s = Some (a, b) \<Longrightarrow> length b < length s"
  by (induction s arbitrary: a) (auto split: if_splits option.splits)

lemma example_Decode_shrinks:
  "\<forall>s b r. pem_Decode example_stdlib s = (Some b, r) \<longrightarrow> length r < length s"
  by (auto simp: example_stdlib_def example_Decode_def split: option.splits
      dest: split_at_shorter)

section \<open>The leaf counter\<close>

lemma countLeafCerts_count:
  "countLeafCerts certChain n = n + of_nat (length (filter isLeaf certChain))"
  by (induction certChain arbitrary: n) simp_all

text \<open>The counter is a byte: the check sees the number of leaves modulo 256.\<close>

lemma hasSingleLeafCertificate_mod:
  "hasSingleLeafCertificate certChain \<longleftrightarrow> length (filter isLeaf certChain) mod 256 = 1"
proof -
  have "hasSingleLeafCertificate certChain \<longleftrightarrow>
      (of_nat (length (filter isLeaf certChain)) :: 8 word) = of_nat 1"
    by (simp add: hasSingleLeafCertificate_def countLeafCerts_count)
  also have "\<dots> \<longleftrightarrow> length (filter isLeaf certChain) mod 256 = 1"
    by (simp only: word_of_nat_eq_iff) (simp add: take_bit_eq_mod)
  finally show ?thesis .
qed

lemma example_Decode_leaf_block:
  "example_Decode (''CERTIFICATE:LRpub-rsa-key;'' @ rest) = (Some leaf_block, rest)"
  by (simp add: example_Decode_def)

lemma decodeBlocks_replicate:
  "decodeBlocks example_stdlib (concat (replicate n ''CERTIFICATE:LRpub-rsa-key;'')) acc =
   Some (Inr (acc @ replicate n leaf_block))"
proof (induction n arbitrary: acc)
  case 0
  then show ?case by (simp add: decodeBlocks_Nil)
next
  case (Suc n)
  have "decodeBlocks example_stdlib
      (''CERTIFICATE:LRpub-rsa-key;'' @ concat (replicate n ''CERTIFICATE:LRpub-rsa-key;'')) acc =
    decodeBlocks example_stdlib (concat (replicate n ''CERTIFICATE:LRpub-rsa-key;''))
      (acc @ [leaf_block])"
    using example_Decode_leaf_block [of "concat (replicate n ''CERTIFICATE:LRpub-rsa-key;'')"]
    by (subst decodeBlocks.simps) (simp add: example_stdlib_def)
  then show ?case by (simp add: Suc.IH replicate_app_Cons_same)
qed

lemma parseBlocks_replicate:
  "parseBlocks example_stdlib (replicate n leaf_block) acc = Inr (acc @ replicate n rsa_leaf)"
proof (induction n arbitrary: acc)
  case 0
  then show ?case by simp
next
  case (Suc n)
  then show ?case by (simp add: example_defs replicate_app_Cons_same)
qed

lemma parseCertificateChain_replicate:
  "0 < n \<Longrightarrow>
   parseCertificateChain example_stdlib (concat (replicate n ''CERTIFICATE:LRpub-rsa-key;'')) =
   Some (Inr (replicate n rsa_leaf))"
  by (simp add: parseCertificateChain_def decodeBlocks_replicate parseBlocks_replicate)

lemma isLeaf_rsa_leaf: "isLeaf rsa_leaf"
  by (simp add: isLeaf_def)

lemma hasSingleLeafCertificate_257: "hasSingleLeafCertificate (replicate 257 rsa_leaf)"
  by (simp add: hasSingleLeafCertificate_mod isLeaf_rsa_leaf)

section \<open>The index into the chain\<close>

lemma checked_no_panic:
  "setCertificate_checked B d p chain w1 = (r, w2) \<Longrightarrow> r \<noteq> Inl PanicIndexOutOfRange"
  by (cases chain)
    (auto simp: setCertificate_checked_def hasSingleLeafCertificate_def Let_def
      split: prod.splits option.splits if_splits)

lemma locked_no_panic:
  "setCertificate_locked B L d p w1 = Some (r, w2) \<Longrightarrow> r \<noteq> Inl PanicIndexOutOfRange"
  by (auto simp: setCertificate_locked_def
      split: option.splits sum.splits if_splits dest: checked_no_panic)

section \<open>The handlers, path by path\<close>

lemma keyTypeMatches_table: "keyTypeMatches kt a = AlgorithmMatchesKeyType a kt"
  by (cases kt) (auto simp: AlgorithmMatchesKeyType_def compatibility_table_def)

lemma checked_outcome:
  assumes "setCertificate_checked B d p chain w1 = (r, w2)"
  shows "(\<exists>e. r = Inl e \<and> w2 = w1) \<or>
    (\<exists>cert0 rest v. r = Inr None \<and> chain = cert0 # rest \<and> hasSingleLeafCertificate chain \<and>
       keyTypeMatches (Type p) (PublicKeyAlgorithm cert0) \<and>
       ValidateLeafCertKeyMatch B p v (PublicKeyAlgorithm cert0) (PublicKey cert0) =
         (True, None) \<and>
       w2 = do_call (Call_PersistCertificateChain v)
              (w1\<lparr>storage := snd (PersistCertificateChain B p v chain (storage w1))\<rparr>))"
proof (cases chain)
  case Nil
  with assms show ?thesis
    by (auto simp: setCertificate_checked_def split: if_splits)
next
  case (Cons cert0 rest)
  with assms show ?thesis
    by (auto simp: setCertificate_checked_def Let_def
        split: if_splits prod.splits option.splits)
qed

lemma locked_outcome:
  assumes "setCertificate_locked B L d p w1 = Some (r, w2)"
  shows "(\<exists>e. r = Inl e \<and> w2 = w1) \<or>
    (\<exists>chain cert0 rest v. r = Inr None \<and> SigningSupported (Type p) \<and>
       parseCertificateChain L (d_certificate_chain d) = Some (Inr chain) \<and>
       chain = cert0 # rest \<and> hasSingleLeafCertificate chain \<and>
       keyTypeMatches (Type p) (PublicKeyAlgorithm cert0) \<and>
       ValidateLeafCertKeyMatch B p v (PublicKeyAlgorithm cert0) (PublicKey cert0) =
         (True, None) \<and>
       w2 = do_call (Call_PersistCertificateChain v)
              (w1\<lparr>storage := snd (PersistCertificateChain B p v chain (storage w1))\<rparr>))"
proof (cases "SigningSupported (Type p)")
  case False
  with assms show ?thesis by (auto simp: setCertificate_locked_def)
next
  case True
  show ?thesis
  proof (cases "parseCertificateChain L (d_certificate_chain d)")
    case None
    with assms True show ?thesis by (auto simp: setCertificate_locked_def)
  next
    case (Some res)
    show ?thesis
    proof (cases res)
      case (Inl err)
      with assms True Some show ?thesis by (auto simp: setCertificate_locked_def)
    next
      case (Inr chain)
      with assms True Some have "setCertificate_checked B d p chain w1 = (r, w2)"
        by (simp add: setCertificate_locked_def)
      from checked_outcome [OF this] True Some Inr show ?thesis by blast
    qed
  qed
qed

lemma import_outcome:
  assumes "pathSetCertificateWrite B L d w = Some (r, w')"
  shows "(\<exists>e. r = Inl e \<and> storage w' = storage w \<and>
            persist_calls (calls w') = persist_calls (calls w)) \<or>
    (\<exists>p chain cert0 rest v pre. r = Inr None \<and>
       GetPolicy B (storage w) (d_name d) = (Some p, None) \<and> SigningSupported (Type p) \<and>
       parseCertificateChain L (d_certificate_chain d) = Some (Inr chain) \<and>
       chain = cert0 # rest \<and> hasSingleLeafCertificate chain \<and>
       keyTypeMatches (Type p) (PublicKeyAlgorithm cert0) \<and>
       ValidateLeafCertKeyMatch B p v (PublicKeyAlgorithm cert0) (PublicKey cert0) =
         (True, None) \<and>
       storage w' = snd (PersistCertificateChain B p v chain (storage w)) \<and>
       calls w' = pre @ [Call_PersistCertificateChain v, Call_Unlock] \<and>
       persist_calls (calls w') = persist_calls (calls w) @ [v])"
proof -
  obtain po eo where g: "GetPolicy B (storage w) (d_name d) = (po, eo)"
    by (cases "GetPolicy B (storage w) (d_name d)")
  show ?thesis
  proof (cases eo)
    case (Some err)
    with assms g show ?thesis
      by (auto simp: pathSetCertificateWrite_def split: option.splits)
  next
    case None
    show ?thesis
    proof (cases po)
      case no: None
      with assms g None show ?thesis
        by (auto simp: pathSetCertificateWrite_def split: option.splits)
    next
      case (Some p)
      define w1 where "w1 = (if \<not> CachingDisabled B then do_call (Call_Lock True) w else w)"
      have w1: "storage w1 = storage w" "persist_calls (calls w1) = persist_calls (calls w)"
        by (simp_all add: w1_def do_call_def persist_calls_append)
      from assms g None Some obtain w2 where
        l: "setCertificate_locked B L d p w1 = Some (r, w2)" and w': "w' = do_call Call_Unlock w2"
        by (auto simp: pathSetCertificateWrite_def Let_def w1_def split: option.splits)
      from locked_outcome [OF l] show ?thesis
      proof (elim disjE exE conjE)
        fix e assume "r = Inl e" "w2 = w1"
        with w' w1 have "r = Inl e \<and> storage w' = storage w \<and>
            persist_calls (calls w') = persist_calls (calls w)"
          by (simp add: do_call_def persist_calls_append)
        then show ?thesis by blast
      next
        fix chain cert0 rest v
        assume a: "r = Inr None" "SigningSupported (Type p)"
          "parseCertificateChain L (d_certificate_chain d) = Some (Inr chain)"
          "chain = cert0 # rest" "hasSingleLeafCertificate chain"
          "keyTypeMatches (Type p) (PublicKeyAlgorithm cert0)"
          "ValidateLeafCertKeyMatch B p v (PublicKeyAlgorithm cert0) (PublicKey cert0) =
             (True, None)"
          "w2 = do_call (Call_PersistCertificateChain v)
              (w1\<lparr>storage := snd (PersistCertificateChain B p v chain (storage w1))\<rparr>)"
        from a(8) w' w1 have
          "storage w' = snd (PersistCertificateChain B p v chain (storage w)) \<and>
           calls w' = calls w1 @ [Call_PersistCertificateChain v, Call_Unlock] \<and>
           persist_calls (calls w') = persist_calls (calls w) @ [v]"
          by (simp add: do_call_def persist_calls_append)
        with a g None Some show ?thesis by blast
      qed
    qed
  qed
qed

lemma sign_outcome:
  "storage (snd (pathSignCsrWrite B L d w)) = storage w \<and>
   persist_calls (calls (snd (pathSignCsrWrite B L d w))) = persist_calls (calls w)"
  by (auto simp: pathSignCsrWrite_def Let_def do_call_def persist_calls_append
      split: prod.splits option.splits)

text \<open>When an import ends in the key-type mismatch, and what it does otherwise.\<close>

lemma checked_mismatch_iff:
  "(\<exists>w2. setCertificate_checked B d p chain w1 = (Inl (ErrKeyTypeMismatch a' kt'), w2)) \<longleftrightarrow>
   (\<exists>cert0 certs. chain = cert0 # certs \<and> hasSingleLeafCertificate chain \<and>
      a' = PublicKeyAlgorithm cert0 \<and> kt' = Type p \<and> \<not> keyTypeMatches kt' a')"
proof (cases chain)
  case Nil
  then show ?thesis
    by (auto simp: setCertificate_checked_def split: if_splits)
next
  case (Cons cert0 certs)
  then show ?thesis
    by (auto simp: setCertificate_checked_def Let_def
        split: if_splits prod.splits option.splits)
qed

lemma locked_mismatch_iff:
  "(\<exists>w2. setCertificate_locked B L d p w1 = Some (Inl (ErrKeyTypeMismatch a' kt'), w2)) \<longleftrightarrow>
   (\<exists>cert0 certs. SigningSupported (Type p) \<and>
      parseCertificateChain L (d_certificate_chain d) = Some (Inr (cert0 # certs)) \<and>
      hasSingleLeafCertificate (cert0 # certs) \<and>
      a' = PublicKeyAlgorithm cert0 \<and> kt' = Type p \<and> \<not> keyTypeMatches kt' a')"
proof (cases "SigningSupported (Type p)")
  case False
  then show ?thesis by (simp add: setCertificate_locked_def)
next
  case True
  show ?thesis
  proof (cases "parseCertificateChain L (d_certificate_chain d)")
    case None
    with True show ?thesis by (simp add: setCertificate_locked_def)
  next
    case (Some res)
    show ?thesis
    proof (cases res)
      case (Inl err)
      with True Some show ?thesis by (simp add: setCertificate_locked_def)
    next
      case (Inr chain)
      with True Some checked_mismatch_iff [of B d p chain w1 a' kt'] show ?thesis
        by (auto simp: setCertificate_locked_def)
    qed
  qed
qed

lemma import_mismatch_iff:
  "(\<exists>w'. pathSetCertificateWrite B L d w = Some (Inl (ErrKeyTypeMismatch a' kt'), w')) \<longleftrightarrow>
   (\<exists>p cert0 certs. GetPolicy B (storage w) (d_name d) = (Some p, None) \<and>
      SigningSupported (Type p) \<and>
      parseCertificateChain L (d_certificate_chain d) = Some (Inr (cert0 # certs)) \<and>
      hasSingleLeafCertificate (cert0 # certs) \<and>
      a' = PublicKeyAlgorithm cert0 \<and> kt' = Type p \<and> \<not> keyTypeMatches kt' a')"
proof -
  obtain po eo where g: "GetPolicy B (storage w) (d_name d) = (po, eo)"
    by (cases "GetPolicy B (storage w) (d_name d)")
  show ?thesis
  proof (cases eo)
    case (Some err)
    with g show ?thesis
      by (auto simp: pathSetCertificateWrite_def split: option.splits)
  next
    case None
    show ?thesis
    proof (cases po)
      case no: None
      with g None show ?thesis
        by (auto simp: pathSetCertificateWrite_def split: option.splits)
    next
      case (Some p)
      define w1 where "w1 = (if \<not> CachingDisabled B then do_call (Call_Lock True) w else w)"
      have "(\<exists>w'. pathSetCertificateWrite B L d w =
               Some (Inl (ErrKeyTypeMismatch a' kt'), w')) \<longleftrightarrow>
            (\<exists>w2. setCertificate_locked B L d p w1 =
               Some (Inl (ErrKeyTypeMismatch a' kt'), w2))"
        using g None Some
        by (auto simp: pathSetCertificateWrite_def Let_def w1_def split: option.splits)
      with locked_mismatch_iff [of B L d p w1 a' kt'] g None Some show ?thesis
        by simp
    qed
  qed
qed

lemma import_after_match:
  assumes "GetPolicy B (storage w) (d_name d) = (Some p, None)" "SigningSupported (Type p)"
    "parseCertificateChain L (d_certificate_chain d) = Some (Inr (cert0 # certs))"
    "hasSingleLeafCertificate (cert0 # certs)"
    "keyTypeMatches (Type p) (PublicKeyAlgorithm cert0)"
  shows "\<exists>w'. pathSetCertificateWrite B L d w =
     Some (case ValidateLeafCertKeyMatch B p
                  (case d_version d of Some version \<Rightarrow> version | None \<Rightarrow> LatestVersion p)
                  (PublicKeyAlgorithm cert0) (PublicKey cert0) of
             (valid, Some e) \<Rightarrow> Inl (ErrInternal e)
           | (valid, None) \<Rightarrow> if valid then Inr None else Inl ErrKeyMismatch, w')"
  using assms
  by (auto simp: pathSetCertificateWrite_def setCertificate_locked_def
      setCertificate_checked_def Let_def split: prod.splits option.splits)

section \<open>The claims\<close>

text \<open>
  C1. An import that passes every check must report a persistence failure when the store
  fails to persist the chain. The code does not: the value \<^verbatim>\<open>PersistCertificateChain\<close>
  returns is dropped, and the \<^verbatim>\<open>err\<close> tested after the call is the \<^verbatim>\<open>nil\<close> of the key
  match. On a store whose storage refuses the write, the import of a matching leaf
  certificate returns \<^verbatim>\<open>nil, nil\<close>, the success of the handler.
\<close>

theorem persist_failure_is_reported_as_success:
  "fst (PersistCertificateChain readonly_backend rsa_policy 1 [rsa_leaf] []) =
     Some ''cannot write to readonly storage'' \<and>
   pathSetCertificateWrite readonly_backend example_stdlib
     (import_request ''rsa-key'' ''CERTIFICATE:LRpub-rsa-key;'') example_world =
   Some (Inr None,
     \<lparr>storage = [], calls = [Call_Lock True, Call_PersistCertificateChain 1, Call_Unlock]\<rparr>)"
  by (simp add: eval_import)

text \<open>No import ever ends in the persistence error, whatever the store does.\<close>

lemma never_ErrPersistenceFailed:
  "pathSetCertificateWrite B L d w = Some (r, w') \<Longrightarrow> r \<noteq> Inl (ErrPersistenceFailed e)"
  by (auto simp: pathSetCertificateWrite_def setCertificate_locked_def
      setCertificate_checked_def Let_def
      split: prod.splits option.splits sum.splits list.splits if_splits)

text \<open>
  C2. The certificate whose algorithm and public key are checked must be the unique leaf,
  wherever it stands in the chain. The code checks \<^verbatim>\<open>certChain[0]\<close>. With a CA certificate
  first, an ECDSA CA before the RSA leaf of the key makes the import fail with the type
  mismatch of the CA, though the leaf has the key's type and its public key; and a CA
  certificate that carries the key's public key, before a leaf with another public key,
  is imported, though the store denies that the leaf's key matches.
\<close>

theorem first_certificate_is_checked_not_the_leaf:
  "filter isLeaf [ec_ca, rsa_leaf] = [rsa_leaf] \<and>
   keyTypeMatches (Type rsa_policy) (PublicKeyAlgorithm rsa_leaf) \<and>
   ValidateLeafCertKeyMatch example_backend rsa_policy 1 RSA (PublicKey rsa_leaf) = (True, None) \<and>
   pathSetCertificateWrite example_backend example_stdlib
     (import_request ''rsa-key'' ''CERTIFICATE:CEca-key;CERTIFICATE:LRpub-rsa-key;'')
     example_world =
   Some (Inl (ErrKeyTypeMismatch ECDSA KeyType_RSA2048),
     \<lparr>storage = [], calls = [Call_Lock True, Call_Unlock]\<rparr>) \<and>
   filter isLeaf [rsa_ca, other_leaf] = [other_leaf] \<and>
   ValidateLeafCertKeyMatch example_backend rsa_policy 1 RSA (PublicKey other_leaf) =
     (False, None) \<and>
   pathSetCertificateWrite example_backend example_stdlib
     (import_request ''rsa-key'' ''CERTIFICATE:CRpub-rsa-key;CERTIFICATE:LRpub-other;'')
     example_world =
   Some (Inr None,
     \<lparr>storage = [((''rsa-key'', 1), [rsa_ca, other_leaf])],
      calls = [Call_Lock True, Call_PersistCertificateChain 1, Call_Unlock]\<rparr>)"
  by (simp add: eval_import)

text \<open>
  C3. A chain with no leaf, or with two leaves or more, must fail with the invalid-chain
  error. The code counts the leaves in a \<^verbatim>\<open>uint8\<close>: a chain of 257 leaf certificates
  counts as one leaf, passes the check and is persisted.
\<close>

theorem chain_of_257_leaves_is_imported:
  "length (filter isLeaf (replicate 257 rsa_leaf)) = 257 \<and>
   pathSetCertificateWrite example_backend example_stdlib
     (import_request ''rsa-key'' (concat (replicate 257 ''CERTIFICATE:LRpub-rsa-key;'')))
     example_world =
   Some (Inr None,
     \<lparr>storage = [((''rsa-key'', 1), replicate 257 rsa_leaf)],
      calls = [Call_Lock True, Call_PersistCertificateChain 1, Call_Unlock]\<rparr>)"
proof -
  have r: "replicate 257 rsa_leaf = rsa_leaf # replicate 256 rsa_leaf"
    by (simp add: numeral_eq_Suc)
  have "setCertificate_checked example_backend
     (import_request ''rsa-key'' (concat (replicate 257 ''CERTIFICATE:LRpub-rsa-key;'')))
     rsa_policy (replicate 257 rsa_leaf) \<lparr>storage = [], calls = [Call_Lock True]\<rparr> =
    (Inr None,
     \<lparr>storage = [((''rsa-key'', 1), replicate 257 rsa_leaf)],
      calls = [Call_Lock True, Call_PersistCertificateChain 1]\<rparr>)"
    unfolding setCertificate_checked_def
    using hasSingleLeafCertificate_257
    by (simp add: r backend_defs do_call_def)
  then show ?thesis
    by (simp add: pathSetCertificateWrite_def setCertificate_locked_def
        parseCertificateChain_replicate backend_defs do_call_def isLeaf_rsa_leaf)
qed

text \<open>Below 256 leaves the check is the one the specification describes.\<close>

lemma hasSingleLeafCertificate_short:
  "length certChain < 256 \<Longrightarrow>
   hasSingleLeafCertificate certChain \<longleftrightarrow> length (filter isLeaf certChain) = 1"
proof -
  assume "length certChain < 256"
  moreover have "length (filter isLeaf certChain) \<le> length certChain" by simp
  ultimately have "length (filter isLeaf certChain) < 256" by linarith
  then show ?thesis by (simp add: hasSingleLeafCertificate_mod)
qed

text \<open>
  C4. \<^verbatim>\<open>parseCsr\<close> maps the empty string to the zero certificate request. On a
  non-empty input it takes the first block \<^verbatim>\<open>pem.Decode\<close> finds and succeeds exactly
  when the contents of that block parse as a certificate request: it looks neither at the
  type of the block nor at what is left of the input after it. Otherwise it fails.
\<close>

theorem parseCsr_takes_the_first_block:
  "parseCsr L [] = Inr zero_CertificateRequest \<and>
   (csrStr \<noteq> [] \<longrightarrow>
      (\<forall>csr. parseCsr L csrStr = Inr csr \<longleftrightarrow>
         (\<exists>block rest. pem_Decode L csrStr = (Some block, rest) \<and>
            x509_ParseCertificateRequest L (block_Bytes block) = Inr csr)) \<and>
      ((\<exists>e. parseCsr L csrStr = Inl e) \<longleftrightarrow>
         \<not> (\<exists>block rest csr. pem_Decode L csrStr = (Some block, rest) \<and>
            x509_ParseCertificateRequest L (block_Bytes block) = Inr csr)))"
proof (intro conjI impI allI)
  show "parseCsr L [] = Inr zero_CertificateRequest"
    by (simp add: parseCsr_def)
next
  fix csr
  assume "csrStr \<noteq> []"
  then show "parseCsr L csrStr = Inr csr \<longleftrightarrow>
         (\<exists>block rest. pem_Decode L csrStr = (Some block, rest) \<and>
            x509_ParseCertificateRequest L (block_Bytes block) = Inr csr)"
    by (auto simp: parseCsr_def split: prod.splits option.splits sum.splits)
next
  assume "csrStr \<noteq> []"
  then show "(\<exists>e. parseCsr L csrStr = Inl e) \<longleftrightarrow>
         \<not> (\<exists>block rest csr. pem_Decode L csrStr = (Some block, rest) \<and>
            x509_ParseCertificateRequest L (block_Bytes block) = Inr csr)"
    by (auto simp: parseCsr_def split: prod.splits option.splits sum.splits)
qed

theorem parseCsr_takes_the_first_block_witness:
  "parseCsr example_stdlib [] = Inr zero_CertificateRequest \<and>
   ''CERTIFICATE:Qcn=example;trailing text'' \<noteq> [] \<and>
   parseCsr example_stdlib ''CERTIFICATE:Qcn=example;trailing text'' =
     Inr \<lparr>csr_Raw = ''Qcn=example'', csr_Subject = ''cn=example''\<rparr> \<and>
   pem_Decode example_stdlib ''CERTIFICATE:Qcn=example;trailing text'' =
     (Some \<lparr>block_Type = ''CERTIFICATE'', block_Bytes = ''Qcn=example''\<rparr>, ''trailing text'') \<and>
   (\<exists>e. parseCsr example_stdlib ''not a block'' = Inl e)"
  using parseCsr_takes_the_first_block [of example_stdlib "''CERTIFICATE:Qcn=example;trailing text''"]
    parseCsr_takes_the_first_block [of example_stdlib "''not a block''"]
  by (simp add: example_defs)

text \<open>
  The claim as the specification words it (success only on exactly one block of CSR type)
  fails on a block of another type followed by further text.
\<close>

theorem parseCsr_block_type_and_rest_counterexample:
  "\<not> (\<not> isl (parseCsr example_stdlib ''CERTIFICATE:Qcn=example;trailing text'') \<longrightarrow>
       one_csr_block example_stdlib ''CERTIFICATE:Qcn=example;trailing text'')"
  by (simp add: parseCsr_def one_csr_block_def example_defs)

text \<open>
  C5. \<^verbatim>\<open>parseCertificateChain\<close> strips PEM blocks from the front of its input until
  nothing remains. Given that \<^verbatim>\<open>pem.Decode\<close> returns a remainder shorter than its input
  with every block, it returns on every input. It fails exactly when a block fails to
  decode (the remainder \<open>r\<close> reached after the blocks \<open>bs\<close> is not empty and holds no
  block), when a block is not a certificate, or when there is no block at all; and it
  succeeds with the certificates \<open>certs\<close> exactly when the input is a sequence of one or
  more blocks that parse, one by one and in the order of the input, to \<open>certs\<close>.
\<close>

theorem parseCertificateChain_decodes_all_blocks_in_order:
  assumes "\<forall>x b r. pem_Decode L x = (Some b, r) \<longrightarrow> length r < length x"
  shows "(\<exists>res. parseCertificateChain L s = Some res) \<and>
    ((\<exists>e. parseCertificateChain L s = Some (Inl (e))) \<longleftrightarrow>
       (\<exists>bs r. decodes_to L s bs r \<and> r \<noteq> [] \<and> fst (pem_Decode L r) = None) \<or>
       (\<exists>bs b. decodes_to L s bs [] \<and> b \<in> set bs \<and>
          isl (x509_ParseCertificate L (block_Bytes b))) \<or>
       decodes_to L s [] []) \<and>
    (\<forall>certs. parseCertificateChain L s = Some (Inr certs) \<longleftrightarrow>
       (\<exists>bs. decodes_to L s bs [] \<and> bs \<noteq> [] \<and>
          map (\<lambda>b. x509_ParseCertificate L (block_Bytes b)) bs = map Inr certs))"
  using parseCertificateChain_total [OF assms, of s] parseCertificateChain_failure [of L s]
    parseCertificateChain_success [of L s]
  by blast

theorem parseCertificateChain_decodes_all_blocks_in_order_witness:
  "parseCertificateChain example_stdlib ''CERTIFICATE:CEca-key;CERTIFICATE:LRpub-rsa-key;'' =
     Some (Inr [ec_ca, rsa_leaf]) \<and>
   (\<exists>e. parseCertificateChain example_stdlib ''CERTIFICATE:LRpub-rsa-key;CERTIFICATE'' =
     Some (Inl e))"
proof -
  let ?s = "''CERTIFICATE:CEca-key;CERTIFICATE:LRpub-rsa-key;''"
  let ?t = "''CERTIFICATE:LRpub-rsa-key;CERTIFICATE''"
  let ?bs = "[\<lparr>block_Type = ''CERTIFICATE'', block_Bytes = ''CEca-key''\<rparr>, leaf_block]"
  have "decodes_to example_stdlib ?s ?bs [] \<and> ?bs \<noteq> [] \<and>
      map (\<lambda>b. x509_ParseCertificate example_stdlib (block_Bytes b)) ?bs =
      map Inr [ec_ca, rsa_leaf]"
    by (simp add: example_defs)
  then have 1: "\<exists>bs. decodes_to example_stdlib ?s bs [] \<and> bs \<noteq> [] \<and>
      map (\<lambda>b. x509_ParseCertificate example_stdlib (block_Bytes b)) bs =
      map Inr [ec_ca, rsa_leaf]" by blast
  have "decodes_to example_stdlib ?t [leaf_block] ''CERTIFICATE'' \<and> ''CERTIFICATE'' \<noteq> [] \<and>
      fst (pem_Decode example_stdlib ''CERTIFICATE'') = None"
    by (simp add: example_defs)
  then have 2: "\<exists>bs r. decodes_to example_stdlib ?t bs r \<and> r \<noteq> [] \<and>
      fst (pem_Decode example_stdlib r) = None" by blast
  from parseCertificateChain_decodes_all_blocks_in_order [OF example_Decode_shrinks, of ?s] 1
    parseCertificateChain_decodes_all_blocks_in_order [OF example_Decode_shrinks, of ?t] 2
  show ?thesis by blast
qed

text \<open>
  C6. On a key whose type does not support signing, \<^verbatim>\<open>pathSignCsrWrite\<close> fails with the
  signing-unsupported error, whatever the version and the CSR template of the request.
\<close>

theorem sign_on_non_signing_key_fails:
  "GetPolicy B (storage w) (d_name d) = (Some p, None) \<Longrightarrow> \<not> SigningSupported (Type p) \<Longrightarrow>
   fst (pathSignCsrWrite B L d w) = Inl (ErrSigningUnsupported (Type p))"
  by (simp add: pathSignCsrWrite_def signCsr_locked_def Let_def)

theorem sign_on_non_signing_key_fails_witness:
  "GetPolicy example_backend (storage example_world) ''aes-key'' = (Some aes_policy, None) \<and>
   \<not> SigningSupported (Type aes_policy) \<and>
   fst (pathSignCsrWrite example_backend example_stdlib
     \<lparr>d_name = ''aes-key'', d_version = Some 7, d_csr = ''not a block'',
      d_certificate_chain = []\<rparr> example_world) =
     Inl (ErrSigningUnsupported (KeyType_Symmetric ''aes256-gcm96''))"
  using sign_on_non_signing_key_fails [of example_backend example_world
    "\<lparr>d_name = ''aes-key'', d_version = Some 7, d_csr = ''not a block'',
      d_certificate_chain = []\<rparr>" aes_policy example_stdlib]
  by (simp add: backend_defs)

text \<open>
  C7. The switch that sets \<^verbatim>\<open>keyTypeMatches\<close> is the compatibility table: the ECDSA types
  match ECDSA only, ED25519 matches Ed25519 only, the RSA types match RSA only, and a type
  outside the table matches nothing. The import uses this check and no other: it fails
  with the key-type mismatch exactly when it reaches the check (key found, type signs,
  chain decoded, one leaf counted) and the table does not allow the algorithm read from
  the chain for the type of the key, and the error carries that algorithm and that type.
  When the table allows it, the import goes on to the key match, whose answer decides the
  result.
\<close>

theorem algorithm_check_is_the_table:
  "keyTypeMatches kt a = AlgorithmMatchesKeyType a kt \<and>
   \<not> keyTypeMatches (KeyType_Symmetric n) a \<and>
   ((\<exists>w'. pathSetCertificateWrite B L d w = Some (Inl (ErrKeyTypeMismatch a' kt'), w')) \<longleftrightarrow>
    (\<exists>p cert0 certs. GetPolicy B (storage w) (d_name d) = (Some p, None) \<and>
       SigningSupported (Type p) \<and>
       parseCertificateChain L (d_certificate_chain d) = Some (Inr (cert0 # certs)) \<and>
       hasSingleLeafCertificate (cert0 # certs) \<and>
       a' = PublicKeyAlgorithm cert0 \<and> kt' = Type p \<and>
       \<not> AlgorithmMatchesKeyType a' kt')) \<and>
   (GetPolicy B (storage w) (d_name d) = (Some p, None) \<and> SigningSupported (Type p) \<and>
    parseCertificateChain L (d_certificate_chain d) = Some (Inr (cert0 # certs)) \<and>
    hasSingleLeafCertificate (cert0 # certs) \<longrightarrow>
    (\<not> AlgorithmMatchesKeyType (PublicKeyAlgorithm cert0) (Type p) \<longrightarrow>
       (\<exists>w'. pathSetCertificateWrite B L d w =
          Some (Inl (ErrKeyTypeMismatch (PublicKeyAlgorithm cert0) (Type p)), w'))) \<and>
    (AlgorithmMatchesKeyType (PublicKeyAlgorithm cert0) (Type p) \<longrightarrow>
       (\<exists>w'. pathSetCertificateWrite B L d w =
          Some (case ValidateLeafCertKeyMatch B p
                       (case d_version d of Some version \<Rightarrow> version | None \<Rightarrow> LatestVersion p)
                       (PublicKeyAlgorithm cert0) (PublicKey cert0) of
                  (valid, Some e) \<Rightarrow> Inl (ErrInternal e)
                | (valid, None) \<Rightarrow> if valid then Inr None else Inl ErrKeyMismatch, w'))))"
proof (intro conjI impI)
  show "keyTypeMatches kt a = AlgorithmMatchesKeyType a kt"
    by (rule keyTypeMatches_table)
next
  show "\<not> keyTypeMatches (KeyType_Symmetric n) a"
    by simp
next
  show "(\<exists>w'. pathSetCertificateWrite B L d w = Some (Inl (ErrKeyTypeMismatch a' kt'), w')) \<longleftrightarrow>
    (\<exists>p cert0 certs. GetPolicy B (storage w) (d_name d) = (Some p, None) \<and>
       SigningSupported (Type p) \<and>
       parseCertificateChain L (d_certificate_chain d) = Some (Inr (cert0 # certs)) \<and>
       hasSingleLeafCertificate (cert0 # certs) \<and>
       a' = PublicKeyAlgorithm cert0 \<and> kt' = Type p \<and>
       \<not> AlgorithmMatchesKeyType a' kt')"
    using import_mismatch_iff [of B L d w a' kt'] by (simp add: keyTypeMatches_table)
next
  assume reach: "GetPolicy B (storage w) (d_name d) = (Some p, None) \<and>
    SigningSupported (Type p) \<and>
    parseCertificateChain L (d_certificate_chain d) = Some (Inr (cert0 # certs)) \<and>
    hasSingleLeafCertificate (cert0 # certs)"
  assume "\<not> AlgorithmMatchesKeyType (PublicKeyAlgorithm cert0) (Type p)"
  with reach have "\<exists>p cert0' certs. GetPolicy B (storage w) (d_name d) = (Some p, None) \<and>
      SigningSupported (Type p) \<and>
      parseCertificateChain L (d_certificate_chain d) = Some (Inr (cert0' # certs)) \<and>
      hasSingleLeafCertificate (cert0' # certs) \<and>
      PublicKeyAlgorithm cert0 = PublicKeyAlgorithm cert0' \<and> Type p = Type p \<and>
      \<not> keyTypeMatches (Type p) (PublicKeyAlgorithm cert0)"
    by (auto simp: keyTypeMatches_table)
  then show "\<exists>w'. pathSetCertificateWrite B L d w =
      Some (Inl (ErrKeyTypeMismatch (PublicKeyAlgorithm cert0) (Type p)), w')"
    using import_mismatch_iff [of B L d w "PublicKeyAlgorithm cert0" "Type p"] reach
    by auto
next
  assume reach: "GetPolicy B (storage w) (d_name d) = (Some p, None) \<and>
    SigningSupported (Type p) \<and>
    parseCertificateChain L (d_certificate_chain d) = Some (Inr (cert0 # certs)) \<and>
    hasSingleLeafCertificate (cert0 # certs)"
  assume "AlgorithmMatchesKeyType (PublicKeyAlgorithm cert0) (Type p)"
  with reach show "\<exists>w'. pathSetCertificateWrite B L d w =
      Some (case ValidateLeafCertKeyMatch B p
                   (case d_version d of Some version \<Rightarrow> version | None \<Rightarrow> LatestVersion p)
                   (PublicKeyAlgorithm cert0) (PublicKey cert0) of
              (valid, Some e) \<Rightarrow> Inl (ErrInternal e)
            | (valid, None) \<Rightarrow> if valid then Inr None else Inl ErrKeyMismatch, w')"
    using import_after_match [of B w d p L cert0 certs]
    by (simp add: keyTypeMatches_table)
qed

theorem algorithm_check_is_the_table_witness:
  "keyTypeMatches KeyType_ECDSA_P384 ECDSA \<and> \<not> keyTypeMatches KeyType_ECDSA_P384 RSA \<and>
   \<not> AlgorithmMatchesKeyType (PublicKeyAlgorithm rsa_leaf) KeyType_ECDSA_P256 \<and>
   pathSetCertificateWrite example_backend example_stdlib
     (import_request ''ec-key'' ''CERTIFICATE:LRpub-rsa-key;'') example_world =
   Some (Inl (ErrKeyTypeMismatch RSA KeyType_ECDSA_P256),
     \<lparr>storage = [], calls = [Call_Lock True, Call_Unlock]\<rparr>) \<and>
   AlgorithmMatchesKeyType (PublicKeyAlgorithm rsa_leaf) KeyType_RSA2048 \<and>
   pathSetCertificateWrite example_backend example_stdlib
     (import_request ''rsa-key'' ''CERTIFICATE:LRpub-rsa-key;'') example_world =
   Some (Inr None,
     \<lparr>storage = [((''rsa-key'', 1), [rsa_leaf])],
      calls = [Call_Lock True, Call_PersistCertificateChain 1, Call_Unlock]\<rparr>) \<and>
   (\<nexists>w' a' kt'. pathSetCertificateWrite example_backend example_stdlib
     (import_request ''rsa-key'' ''CERTIFICATE:LRpub-rsa-key;'') example_world =
     Some (Inl (ErrKeyTypeMismatch a' kt'), w'))"
  using algorithm_check_is_the_table [where kt = KeyType_ECDSA_P384 and a = ECDSA
    and B = example_backend and w = example_world
    and d = "import_request ''ec-key'' ''CERTIFICATE:LRpub-rsa-key;''"
    and p = "\<lparr>Name = ''ec-key'', Type = KeyType_ECDSA_P256, LatestVersion = 1\<rparr>"
    and L = example_stdlib and ?cert0.0 = rsa_leaf and certs = "[]"
    and a' = RSA and kt' = KeyType_ECDSA_P256]
    algorithm_check_is_the_table [where kt = KeyType_ECDSA_P384 and a = ECDSA
    and B = example_backend and w = example_world
    and d = "import_request ''rsa-key'' ''CERTIFICATE:LRpub-rsa-key;''"
    and p = rsa_policy
    and L = example_stdlib and ?cert0.0 = rsa_leaf and certs = "[]"
    and a' = RSA and kt' = KeyType_RSA2048]
  by (simp add: eval_import AlgorithmMatchesKeyType_def compatibility_table_def)

text \<open>
  C8. An import that ends in an error leaves the storage as it was and has not called
  \<^verbatim>\<open>PersistCertificateChain\<close>. The persistence call is made only when the key was found,
  its type signs, the chain decoded, passed the leaf count and the algorithm check, and
  the store confirmed the key match; it is then the last call before the deferred unlock.
\<close>

theorem validation_failure_mutates_nothing:
  assumes "pathSetCertificateWrite B L d w = Some (r, w')"
  shows "(\<forall>e. r = Inl e \<longrightarrow>
            storage w' = storage w \<and> persist_calls (calls w') = persist_calls (calls w)) \<and>
    (persist_calls (calls w') = persist_calls (calls w) \<or>
     (\<exists>p chain cert0 rest v pre. r = Inr None \<and>
       GetPolicy B (storage w) (d_name d) = (Some p, None) \<and> SigningSupported (Type p) \<and>
       parseCertificateChain L (d_certificate_chain d) = Some (Inr chain) \<and>
       chain = cert0 # rest \<and> hasSingleLeafCertificate chain \<and>
       keyTypeMatches (Type p) (PublicKeyAlgorithm cert0) \<and>
       ValidateLeafCertKeyMatch B p v (PublicKeyAlgorithm cert0) (PublicKey cert0) =
         (True, None) \<and>
       calls w' = pre @ [Call_PersistCertificateChain v, Call_Unlock]))"
  using import_outcome [OF assms] by auto

theorem validation_failure_mutates_nothing_witness:
  "pathSetCertificateWrite example_backend example_stdlib
     (import_request ''rsa-key'' ''CERTIFICATE:LRpub-other;'') example_world =
   Some (Inl ErrKeyMismatch, \<lparr>storage = [], calls = [Call_Lock True, Call_Unlock]\<rparr>) \<and>
   storage \<lparr>storage = [] :: example_storage, calls = [Call_Lock True, Call_Unlock]\<rparr> =
     storage example_world \<and>
   persist_calls [Call_Lock True, Call_Unlock] = persist_calls (calls example_world)"
  using validation_failure_mutates_nothing [of example_backend example_stdlib
    "import_request ''rsa-key'' ''CERTIFICATE:LRpub-other;''" example_world
    "Inl ErrKeyMismatch" "\<lparr>storage = [], calls = [Call_Lock True, Call_Unlock]\<rparr>"]
  by (simp add: eval_import)

text \<open>
  C9. A chain that \<^verbatim>\<open>parseCertificateChain\<close> returns without error is not empty, and
  \<^verbatim>\<open>pathSetCertificateWrite\<close> never indexes an empty chain: no import ends in the
  index-out-of-range panic.
\<close>

theorem parsed_chain_is_not_empty:
  "(parseCertificateChain L s = Some (Inr certs) \<longrightarrow> certs \<noteq> []) \<and>
   (pathSetCertificateWrite B L d w = Some (r, w') \<longrightarrow> r \<noteq> Inl PanicIndexOutOfRange)"
proof
  show "parseCertificateChain L s = Some (Inr certs) \<longrightarrow> certs \<noteq> []"
    by (auto simp: parseCertificateChain_success)
next
  show "pathSetCertificateWrite B L d w = Some (r, w') \<longrightarrow> r \<noteq> Inl PanicIndexOutOfRange"
    by (auto simp: pathSetCertificateWrite_def Let_def
        split: prod.splits option.splits if_splits dest: locked_no_panic)
qed

theorem parsed_chain_is_not_empty_witness:
  "parseCertificateChain example_stdlib ''CERTIFICATE:LRpub-rsa-key;'' = Some (Inr [rsa_leaf]) \<and>
   [rsa_leaf] \<noteq> [] \<and>
   pathSetCertificateWrite example_backend example_stdlib
     (import_request ''rsa-key'' ''CERTIFICATE:LRpub-rsa-key;'') example_world =
   Some (Inr None,
     \<lparr>storage = [((''rsa-key'', 1), [rsa_leaf])],
      calls = [Call_Lock True, Call_PersistCertificateChain 1, Call_Unlock]\<rparr>) \<and>
   (Inr None :: result) \<noteq> Inl PanicIndexOutOfRange"
  using parsed_chain_is_not_empty [of example_stdlib "''CERTIFICATE:LRpub-rsa-key;''" "[rsa_leaf]"
    example_backend "import_request ''rsa-key'' ''CERTIFICATE:LRpub-rsa-key;''" example_world
    "Inr None" "\<lparr>storage = [((''rsa-key'', 1), [rsa_leaf])],
      calls = [Call_Lock True, Call_PersistCertificateChain 1, Call_Unlock]\<rparr>"]
  by (simp add: eval_import)

text \<open>
  C10. \<^verbatim>\<open>pathSignCsrWrite\<close> returns the storage it was given and never calls
  \<^verbatim>\<open>PersistCertificateChain\<close>, on every path. The storage after an import is the one
  before it or the one its single persistence call returned.
\<close>

theorem sign_never_writes_the_store:
  "storage (snd (pathSignCsrWrite B L d w)) = storage w \<and>
   persist_calls (calls (snd (pathSignCsrWrite B L d w))) = persist_calls (calls w) \<and>
   (pathSetCertificateWrite B L d w = Some (r, w') \<longrightarrow>
      storage w' = storage w \<or>
      (\<exists>p v chain. persist_calls (calls w') = persist_calls (calls w) @ [v] \<and>
         storage w' = snd (PersistCertificateChain B p v chain (storage w))))"
proof (intro conjI impI)
  assume "pathSetCertificateWrite B L d w = Some (r, w')"
  from import_outcome [OF this]
  show "storage w' = storage w \<or>
      (\<exists>p v chain. persist_calls (calls w') = persist_calls (calls w) @ [v] \<and>
         storage w' = snd (PersistCertificateChain B p v chain (storage w)))"
    by blast
qed (simp_all add: sign_outcome)

theorem sign_never_writes_the_store_witness:
  "pathSignCsrWrite example_backend example_stdlib
     \<lparr>d_name = ''rsa-key'', d_version = None, d_csr = ''CERTIFICATE REQUEST:Qcn=example;'',
      d_certificate_chain = []\<rparr> example_world =
   (Inr (Some \<lparr>resp_name = ''rsa-key'', resp_type = KeyType_RSA2048,
      resp_csr = ''CERTIFICATE REQUEST:Qcn=example;''\<rparr>),
    \<lparr>storage = [], calls = [Call_Lock False, Call_Unlock]\<rparr>) \<and>
   pathSetCertificateWrite example_backend example_stdlib
     (import_request ''rsa-key'' ''CERTIFICATE:LRpub-rsa-key;'') example_world =
   Some (Inr None,
     \<lparr>storage = [((''rsa-key'', 1), [rsa_leaf])],
      calls = [Call_Lock True, Call_PersistCertificateChain 1, Call_Unlock]\<rparr>)"
  using sign_never_writes_the_store [of example_backend example_stdlib
     "\<lparr>d_name = ''rsa-key'', d_version = None, d_csr = ''CERTIFICATE REQUEST:Qcn=example;'',
      d_certificate_chain = []\<rparr>" example_world]
  by (simp add: eval_import pathSignCsrWrite_def signCsr_locked_def parseCsr_def)

end
